theory Spec2Isabelle
  imports Complex_Main "HOL-Library.Sublist" "HOL-Library.Multiset" "HOL-Library.Log_Nat"
begin

section \<open>Python values used by the matching engine\<close>

text \<open>
  The repository holds two recommendation engines over the same catalog of internship
  listings: \<^verbatim>\<open>backend/backends.py\<close> (the application exported by the package) and
  \<^verbatim>\<open>backend/backends_bulletproof.py\<close> (the same endpoints wrapped in defensive code).
  Both are embedded here, function by function.

  Conventions of the embedding.
  \<^item> A Python string is a \<open>string\<close> whose characters are the code points below 256;
    \<open>str.lower\<close> and \<open>str.strip\<close> are modelled on that range (the upper-case letters
    \<open>A\<close>..\<open>Z\<close> and U+00C0..U+00DE without U+00D7; the white space characters 9..13,
    28..32, U+0085 and U+00A0).
  \<^item> A Python float is the rational number it denotes, and every operation on floats
    returns the nearest binary64 number of its exact result, ties to even
    (\<open>float_round\<close>). The scores stay between 0 and 1, far from overflow.
  \<^item> A cell of the catalog is text or the missing value NaN that pandas reads for an empty
    CSV cell. A Python tuple with a NaN in it is equal to no tuple, not even to a copy of
    itself: each NaN met by the endpoint is a float object of its own.
  \<^item> Exceptions are values: a function that can raise returns \<open>error + 'a\<close>.
  \<^item> Library functions whose code is not part of the repository (\<open>fuzz.ratio\<close>, the
    regular-expression search of \<open>Series.str.contains\<close>, the sort behind
    \<open>sort_values\<close>, \<open>DataFrame.sample\<close>) are parameters of the functions that call
    them.
\<close>

datatype error = AttributeError | TypeError | RegexError | FileNotFoundError | ParserError

datatype cell = Text string | NaN

datatype skills_cell = SkillList "string list" | SkillText string | SkillNaN

record listing =
  company :: cell
  internship_title :: cell
  field :: cell
  location :: cell
  skills :: skills_cell

text \<open>A row of a scored copy of the catalog: the listing with its \<open>match_score\<close> column.\<close>

record scored = listing +
  match_score :: rat

text \<open>An entry of the response: the scored row with its \<open>apply_link\<close>.\<close>

record recommendation = scored +
  apply_link :: string

text \<open>\<open>RecommendationRequest\<close>; the fields are prefixed where a listing has the same name.\<close>

record request =
  name :: string
  course :: "string option"
  req_skills :: "string list"
  req_locations :: "string list"
  req_field :: string
  top_n :: int

subsection \<open>Strings\<close>

definition lower_char :: "char \<Rightarrow> char" where
  "lower_char c =
     (let n = (of_char c :: nat)
      in if (65 \<le> n \<and> n \<le> 90) \<or> (192 \<le> n \<and> n \<le> 222 \<and> n \<noteq> 215)
         then char_of (n + 32) else c)"

definition lower :: "string \<Rightarrow> string" where
  "lower s = map lower_char s"

definition is_space :: "char \<Rightarrow> bool" where
  "is_space c =
     (let n = (of_char c :: nat)
      in (9 \<le> n \<and> n \<le> 13) \<or> (28 \<le> n \<and> n \<le> 32) \<or> n = 133 \<or> n = 160)"

definition strip :: "string \<Rightarrow> string" where
  "strip s = rev (dropWhile is_space (rev (dropWhile is_space s)))"

text \<open>\<open>s.split(d)\<close> for a one-character separator: the empty string splits into \<open>['']\<close>.\<close>

fun split_on :: "char \<Rightarrow> string \<Rightarrow> string list" where
  "split_on d [] = [[]]"
| "split_on d (c # cs) =
     (if c = d then [] # split_on d cs
      else (case split_on d cs of w # ws \<Rightarrow> (c # w) # ws | [] \<Rightarrow> [[c]]))"

text \<open>\<open>sep.join(xs)\<close>.\<close>

fun join :: "string \<Rightarrow> string list \<Rightarrow> string" where
  "join sep [] = []"
| "join sep [x] = x"
| "join sep (x # y # ys) = x @ sep @ join sep (y # ys)"

text \<open>\<open>s.replace(a, b)\<close> for single characters.\<close>

definition replace_char :: "char \<Rightarrow> char \<Rightarrow> string \<Rightarrow> string" where
  "replace_char a b s = map (\<lambda>c. if c = a then b else c) s"

subsection \<open>Floats\<close>

definition round_half_even :: "rat \<Rightarrow> int" where
  "round_half_even x =
     (let f = \<lfloor>x\<rfloor>; d = x - of_int f
      in if d < 1 / 2 then f else if 1 / 2 < d then f + 1 else if even f then f else f + 1)"

text \<open>The exponent \<open>e\<close> of a positive number: \<open>2 ^ e \<le> x < 2 ^ (e + 1)\<close>.\<close>

definition binade :: "rat \<Rightarrow> int" where
  "binade x =
     (case quotient_of x of
        (p, q) \<Rightarrow> (let d = bitlen p - bitlen q in if 2 powi d \<le> x then d else d - 1))"

text \<open>
  The nearest binary64 number, ties to even: 53 significant bits, and below
  \<open>2 ^ - 1022\<close> the fixed spacing of the subnormal numbers.
\<close>

definition float_round :: "rat \<Rightarrow> rat" where
  "float_round x =
     (if x = 0 then 0
      else (let e = max (binade \<bar>x\<bar>) (- 1022); q = 2 powi (e - 52)
            in sgn x * (of_int (round_half_even (\<bar>x\<bar> / q)) * q)))"

definition fdiv :: "rat \<Rightarrow> rat \<Rightarrow> rat" where
  "fdiv a b = float_round (a / b)"

definition fmul :: "rat \<Rightarrow> rat \<Rightarrow> rat" where
  "fmul a b = float_round (a * b)"

definition fadd :: "rat \<Rightarrow> rat \<Rightarrow> rat" where
  "fadd a b = float_round (a + b)"

text \<open>
  \<open>round(x, 3)\<close>: the exact value of the float is rounded to three decimals, ties to
  even, and the float nearest to that decimal is returned.
\<close>

definition round3 :: "rat \<Rightarrow> rat" where
  "round3 x = float_round (of_int (round_half_even (x * 1000)) / 1000)"

section \<open>The scorer of backends.py\<close>

text \<open>
  \<open>set(row["skills"])\<close>: the elements of a list, the characters of a string; a float is
  not iterable. (The module makes every skills cell a list when it loads the file.)
\<close>

definition py_set :: "skills_cell \<Rightarrow> error + string set" where
  "py_set v =
     (case v of
        SkillList l \<Rightarrow> Inr (set l)
      | SkillText s \<Rightarrow> Inr (set (map (\<lambda>c. [c]) s))
      | SkillNaN \<Rightarrow> Inl TypeError)"

text \<open>
  The block under \<^verbatim>\<open># Skills match (weight 0.6)\<close>: \<open>score\<close> as the block finds it and
  as it leaves it.
\<close>

definition skills_match :: "string list \<Rightarrow> 'a listing_scheme \<Rightarrow> rat \<Rightarrow> error + rat" where
  "skills_match student_skills row score =
     (if student_skills \<noteq> [] then
        (case py_set (skills row) of
           Inl e \<Rightarrow> Inl e
         | Inr row_skills \<Rightarrow>
             (let match_count = card (set student_skills \<inter> row_skills)
              in Inr (fadd score
                        (fmul (fdiv (of_nat match_count) (of_nat (max (length student_skills) 1)))
                              (float_round (6 / 10))))))
      else Inr score)"

text \<open>
  The block under \<^verbatim>\<open># Field fuzzy match (weight 0.4)\<close>: \<open>row["field"].lower()\<close> raises
  on a cell that is not a string.
\<close>

definition field_match ::
  "(string \<Rightarrow> string \<Rightarrow> nat) \<Rightarrow> string \<Rightarrow> 'a listing_scheme \<Rightarrow> rat \<Rightarrow> error + rat" where
  "field_match ratio student_field row score =
     (if student_field \<noteq> [] then
        (case field row of
           NaN \<Rightarrow> Inl AttributeError
         | Text f \<Rightarrow>
             (let similarity = ratio (lower f) student_field
              in if 80 \<le> similarity then Inr (fadd score (float_round (4 / 10)))
                 else Inr score))
      else Inr score)"

definition calculate_score ::
  "(string \<Rightarrow> string \<Rightarrow> nat) \<Rightarrow> string list \<Rightarrow> string \<Rightarrow> 'a listing_scheme \<Rightarrow> error + rat" where
  "calculate_score ratio student_skills student_field row =
     (case skills_match student_skills row 0 of
        Inl e \<Rightarrow> Inl e
      | Inr score \<Rightarrow>
          (case field_match ratio student_field row score of
             Inl e \<Rightarrow> Inl e
           | Inr score \<Rightarrow> Inr (round3 score)))"

section \<open>The scorer of backends_bulletproof.py\<close>

text \<open>
  \<open>safe_string_operation(value)\<close> with its default operation \<open>"lower"\<close>: the empty string
  for a missing value, the lower-cased text otherwise. Its handler guards \<open>str(value)\<close>,
  which cannot fail on a string.
\<close>

definition safe_string_operation :: "cell \<Rightarrow> string" where
  "safe_string_operation v = (case v of NaN \<Rightarrow> [] | Text s \<Rightarrow> lower s)"

text \<open>
  \<open>safe_list_operation(lst)\<close>: a list keeps its items, any other value becomes a
  one-element list of its text when it is truthy (\<open>str(nan)\<close> is \<open>'nan'\<close>).
\<close>

definition safe_list_operation :: "skills_cell \<Rightarrow> string list" where
  "safe_list_operation v =
     (case v of
        SkillList l \<Rightarrow> l
      | SkillText s \<Rightarrow> (if s \<noteq> [] then [s] else [])
      | SkillNaN \<Rightarrow> [''nan''])"

text \<open>
  The skills block of \<open>calculate_score_safely\<close>. Nothing in it can raise on the values
  above, so its \<^verbatim>\<open>except: pass\<close> has no branch here.
\<close>

definition skills_match_safely :: "string list \<Rightarrow> 'a listing_scheme \<Rightarrow> rat \<Rightarrow> rat" where
  "skills_match_safely student_skills row score =
     (if student_skills \<noteq> [] then
        (let row_skills =
               (case skills row of
                  SkillText s \<Rightarrow> [lower (strip t). t \<leftarrow> split_on CHR '','' s, strip t \<noteq> []]
                | SkillList l \<Rightarrow> l
                | SkillNaN \<Rightarrow> []);
             student_skills_clean = map (\<lambda>s. safe_string_operation (Text s)) student_skills;
             row_skills_clean = map (\<lambda>s. safe_string_operation (Text s)) row_skills;
             match_count = card (set student_skills_clean \<inter> set row_skills_clean)
         in if student_skills_clean \<noteq> [] then
              fadd score
                (fmul (fdiv (of_nat match_count) (of_nat (length student_skills_clean)))
                      (float_round (6 / 10)))
            else score)
      else score)"

definition field_match_safely ::
  "(string \<Rightarrow> string \<Rightarrow> nat) \<Rightarrow> string \<Rightarrow> 'a listing_scheme \<Rightarrow> rat \<Rightarrow> rat" where
  "field_match_safely ratio student_field row score =
     (if student_field \<noteq> [] then
        (let row_field = safe_string_operation (field row)
         in if row_field \<noteq> [] then
              (let similarity = ratio row_field (safe_string_operation (Text student_field))
               in if 80 \<le> similarity then fadd score (float_round (4 / 10)) else score)
            else score)
      else score)"

definition calculate_score_safely ::
  "(string \<Rightarrow> string \<Rightarrow> nat) \<Rightarrow> 'a listing_scheme \<Rightarrow> string list \<Rightarrow> string \<Rightarrow> rat" where
  "calculate_score_safely ratio row student_skills student_field =
     (let score = field_match_safely ratio student_field row
                    (skills_match_safely student_skills row 0)
      in round3 (max 0 (min 1 score)))"

text \<open>
  The \<open>fuzz.ratio\<close> that backends_bulletproof.py defines for itself when fuzzywuzzy cannot
  be imported.
\<close>

definition fallback_ratio :: "string \<Rightarrow> string \<Rightarrow> nat" where
  "fallback_ratio a b = (if lower a = lower b then 100 else 0)"


section \<open>The recommendation endpoint of backends.py\<close>

text \<open>The identity of a listing: \<open>(r['company'], r['internship_title'], r['location'])\<close>.\<close>

definition key :: "'a listing_scheme \<Rightarrow> cell \<times> cell \<times> cell" where
  "key r = (company r, internship_title r, location r)"

text \<open>
  \<open>k in keys\<close> for a list or a set of such tuples: a tuple with a NaN in it is found
  nowhere, any other tuple where an equal one stands.
\<close>

definition no_nan :: "cell \<times> cell \<times> cell \<Rightarrow> bool" where
  "no_nan k = (case k of (c, t, l) \<Rightarrow> c \<noteq> NaN \<and> t \<noteq> NaN \<and> l \<noteq> NaN)"

definition key_in :: "cell \<times> cell \<times> cell \<Rightarrow> (cell \<times> cell \<times> cell) set \<Rightarrow> bool" where
  "key_in k keys \<longleftrightarrow> no_nan k \<and> k \<in> keys"

definition with_score :: "listing \<Rightarrow> rat \<Rightarrow> scored" where
  "with_score row s =
     \<lparr>company = company row, internship_title = internship_title row, field = field row,
      location = location row, skills = skills row, match_score = s\<rparr>"

text \<open>
  \<open>df_loc["match_score"] = df_loc.apply(calculate_score, axis=1)\<close>: the rows are scored in
  order, and the first row whose score raises ends the call.
\<close>

fun apply_calculate_score ::
  "(string \<Rightarrow> string \<Rightarrow> nat) \<Rightarrow> string list \<Rightarrow> string \<Rightarrow> listing list \<Rightarrow> error + scored list" where
  "apply_calculate_score ratio student_skills student_field [] = Inr []"
| "apply_calculate_score ratio student_skills student_field (row # rows) =
     (case calculate_score ratio student_skills student_field row of
        Inl e \<Rightarrow> Inl e
      | Inr s \<Rightarrow>
          (case apply_calculate_score ratio student_skills student_field rows of
             Inl e \<Rightarrow> Inl e
           | Inr rest \<Rightarrow> Inr (with_score row s # rest)))"

text \<open>
  \<open>DataFrame.head(n)\<close>: the first \<open>n\<close> rows, and for a negative \<open>n\<close> all rows but the last
  \<open>-n\<close>.
\<close>

definition head :: "int \<Rightarrow> 'a list \<Rightarrow> 'a list" where
  "head n xs = (if 0 \<le> n then take (nat n) xs else take (length xs - nat (- n)) xs)"

text \<open>
  What the endpoints ask of \<open>sort_values(by="match_score", ascending=False)\<close>: the rows
  come back reordered with the scores descending. The calls do not choose a sorting
  algorithm, and the default one of pandas is not a stable one, so nothing here fixes the
  order of rows with equal scores.
\<close>

definition sorts_descending :: "(scored list \<Rightarrow> scored list) \<Rightarrow> bool" where
  "sorts_descending sort_values \<longleftrightarrow>
     (\<forall>df. mset (sort_values df) = mset df \<and>
           sorted_wrt (\<lambda>a b. match_score b \<le> match_score a) (sort_values df))"

text \<open>A sort that meets it.\<close>

definition stable_sort_values :: "scored list \<Rightarrow> scored list" where
  "stable_sort_values df = sort_key (\<lambda>r. - match_score r) df"

text \<open>
  What is known of \<open>df.sample(k)\<close>: it reads the state \<open>g\<close> of the global random number
  generator, returns \<open>k\<close> rows of the frame, none of them twice, and leaves a new state.
\<close>

definition draws_without_replacement ::
  "('g \<Rightarrow> nat \<Rightarrow> scored list \<Rightarrow> scored list \<times> 'g) \<Rightarrow> bool" where
  "draws_without_replacement sample \<longleftrightarrow>
     (\<forall>g k df. k \<le> length df \<longrightarrow>
        length (fst (sample g k df)) = k \<and> mset (fst (sample g k df)) \<subseteq># mset df)"

text \<open>
  \<open>df["location"].str.contains(loc, case=False, na=False)\<close> compiles \<open>loc\<close> as a regular
  expression and searches every text cell with it. The parameter \<open>str_contains\<close> gives
  for a pattern its search, or \<open>None\<close> when the pattern does not compile. On a pattern
  without metacharacters the search is the case-insensitive substring test.
\<close>

definition plain_contains :: "string \<Rightarrow> (string \<Rightarrow> bool) option" where
  "plain_contains pat = Some (\<lambda>s. sublist (lower pat) (lower s))"

text \<open>
  The body of the loop over the requested locations: the rows it appends to \<open>results\<close>,
  and the state \<open>g\<close> of the global random number generator, which only
  \<open>remaining.sample\<close> reads and advances.
\<close>

definition select_location ::
  "(string \<Rightarrow> string \<Rightarrow> nat) \<Rightarrow> (string \<Rightarrow> (string \<Rightarrow> bool) option) \<Rightarrow>
   (scored list \<Rightarrow> scored list) \<Rightarrow> ('g \<Rightarrow> nat \<Rightarrow> scored list \<Rightarrow> scored list \<times> 'g) \<Rightarrow>
   string list \<Rightarrow> string \<Rightarrow> int \<Rightarrow> listing list \<Rightarrow> string \<Rightarrow> 'g \<Rightarrow> (error + scored list) \<times> 'g" where
  "select_location ratio str_contains sort_values sample student_skills student_field n df loc g =
     (case str_contains loc of
        None \<Rightarrow> (Inl RegexError, g)
      | Some found \<Rightarrow>
          (let df_loc = filter (\<lambda>r. case location r of Text s \<Rightarrow> found s | NaN \<Rightarrow> False) df
           in if df_loc = [] then (Inr [], g)
              else
                (case apply_calculate_score ratio student_skills student_field df_loc of
                   Inl e \<Rightarrow> (Inl e, g)
                 | Inr scored_loc \<Rightarrow>
                     (let top_loc = sort_values scored_loc;
                          selected = head n top_loc
                      in if int (length selected) < n then
                           (let remaining =
                                  filter (\<lambda>r. \<not> key_in (key r) (set (map key selected)))
                                    scored_loc
                            in if remaining \<noteq> [] then
                                 (case sample g (min (nat (n - int (length selected)))
                                                     (length remaining)) remaining of
                                    (extra, g') \<Rightarrow> (Inr (selected @ extra), g'))
                               else (Inr selected, g))
                         else (Inr selected, g)))))"

text \<open>The loop: \<open>results.extend(selected)\<close> for each location in turn.\<close>

fun location_loop ::
  "(string \<Rightarrow> string \<Rightarrow> nat) \<Rightarrow> (string \<Rightarrow> (string \<Rightarrow> bool) option) \<Rightarrow>
   (scored list \<Rightarrow> scored list) \<Rightarrow> ('g \<Rightarrow> nat \<Rightarrow> scored list \<Rightarrow> scored list \<times> 'g) \<Rightarrow>
   string list \<Rightarrow> string \<Rightarrow> int \<Rightarrow> listing list \<Rightarrow> string list \<Rightarrow> 'g \<Rightarrow>
   (error + scored list) \<times> 'g" where
  "location_loop ratio str_contains sort_values sample student_skills student_field n df [] g =
     (Inr [], g)"
| "location_loop ratio str_contains sort_values sample student_skills student_field n df (loc # locs) g =
     (case select_location ratio str_contains sort_values sample student_skills student_field
             n df loc g of
        (Inl e, g') \<Rightarrow> (Inl e, g')
      | (Inr selected, g') \<Rightarrow>
          (case location_loop ratio str_contains sort_values sample student_skills student_field
                  n df locs g' of
             (Inl e, g'') \<Rightarrow> (Inl e, g'')
           | (Inr rest, g'') \<Rightarrow> (Inr (selected @ rest), g'')))"

text \<open>
  A kept entry: the skills joined for display, and the link made from the title;
  \<open>r['internship_title'].replace\<close> raises on a title that is not a string.
\<close>

definition finish :: "scored \<Rightarrow> error + recommendation" where
  "finish r =
     (case internship_title r of
        NaN \<Rightarrow> Inl AttributeError
      | Text title \<Rightarrow>
          Inr \<lparr>company = company r, internship_title = internship_title r, field = field r,
               location = location r,
               skills = (case skills r of SkillList l \<Rightarrow> SkillText (join '', '' l) | v \<Rightarrow> v),
               match_score = match_score r,
               apply_link = ''https://company.com/apply/''
                              @ replace_char CHR '' '' CHR ''-'' title\<rparr>)"

text \<open>The loop that removes duplicates, with its set \<open>seen_keys\<close>.\<close>

fun unique_recs ::
  "(cell \<times> cell \<times> cell) set \<Rightarrow> scored list \<Rightarrow> error + recommendation list" where
  "unique_recs seen_keys [] = Inr []"
| "unique_recs seen_keys (r # results) =
     (if \<not> key_in (key r) seen_keys then
        (case finish r of
           Inl e \<Rightarrow> Inl e
         | Inr r' \<Rightarrow>
             (case unique_recs (insert (key r) seen_keys) results of
                Inl e \<Rightarrow> Inl e
              | Inr rest \<Rightarrow> Inr (r' # rest)))
      else unique_recs seen_keys results)"

definition get_recommendations ::
  "(string \<Rightarrow> string \<Rightarrow> nat) \<Rightarrow> (string \<Rightarrow> (string \<Rightarrow> bool) option) \<Rightarrow>
   (scored list \<Rightarrow> scored list) \<Rightarrow> ('g \<Rightarrow> nat \<Rightarrow> scored list \<Rightarrow> scored list \<times> 'g) \<Rightarrow>
   listing list \<Rightarrow> 'g \<Rightarrow> request \<Rightarrow> (error + recommendation list) \<times> 'g" where
  "get_recommendations ratio str_contains sort_values sample matches_df g req =
     (let student_skills = map (\<lambda>s. strip (lower s)) (req_skills req);
          student_field = strip (lower (req_field req));
          student_locations = map (\<lambda>l. strip (lower l)) (req_locations req);
          df = matches_df
      in case location_loop ratio str_contains sort_values sample student_skills student_field
                (top_n req) df student_locations g of
           (Inl e, g') \<Rightarrow> (Inl e, g')
         | (Inr results, g') \<Rightarrow> (unique_recs {} results, g'))"

section \<open>The recommendation endpoint of backends_bulletproof.py\<close>

text \<open>
  \<open>nlargest(n, "match_score")\<close> with its default \<open>keep='first'\<close>. When \<open>n\<close> reaches the
  number of rows, pandas sorts the whole column with \<open>sort_values\<close> and takes the head;
  otherwise it selects the \<open>n\<close> largest scores and orders them with a stable sort, so
  that rows with equal scores keep the order of the frame.
\<close>

definition nlargest :: "(scored list \<Rightarrow> scored list) \<Rightarrow> int \<Rightarrow> scored list \<Rightarrow> scored list" where
  "nlargest sort_values n df =
     (if n \<le> 0 then []
      else if int (length df) \<le> n then head n (sort_values df)
      else take (nat n) (sort_key (\<lambda>r. - match_score r) df))"

text \<open>\<open>astype(str)\<close> on a cell: the text of NaN is \<open>'nan'\<close>.\<close>

definition astype_str :: "cell \<Rightarrow> string" where
  "astype_str v = (case v of Text s \<Rightarrow> s | NaN \<Rightarrow> ''nan'')"

definition apply_calculate_score_safely ::
  "(string \<Rightarrow> string \<Rightarrow> nat) \<Rightarrow> string list \<Rightarrow> string \<Rightarrow> listing list \<Rightarrow> scored list" where
  "apply_calculate_score_safely ratio student_skills student_field df =
     map (\<lambda>row. with_score row (calculate_score_safely ratio row student_skills student_field)) df"

text \<open>
  The body of the loop over the locations: a pattern that does not compile raises inside
  the \<^verbatim>\<open>try\<close>, and the handler goes on to the next location.
\<close>

definition select_location_safely ::
  "(string \<Rightarrow> string \<Rightarrow> nat) \<Rightarrow> (string \<Rightarrow> (string \<Rightarrow> bool) option) \<Rightarrow>
   (scored list \<Rightarrow> scored list) \<Rightarrow>
   string list \<Rightarrow> string \<Rightarrow> int \<Rightarrow> listing list \<Rightarrow> string \<Rightarrow> scored list" where
  "select_location_safely ratio str_contains sort_values student_skills student_field n df loc =
     (case str_contains loc of
        None \<Rightarrow> []
      | Some found \<Rightarrow>
          (let df_loc = filter (\<lambda>r. found (astype_str (location r))) df
           in if df_loc \<noteq> [] then
                nlargest sort_values n
                  (apply_calculate_score_safely ratio student_skills student_field df_loc)
              else []))"

text \<open>The dictionary built for each result: every text lower-cased by \<open>safe_string_operation\<close>.\<close>

definition format_result :: "scored \<Rightarrow> recommendation" where
  "format_result r =
     \<lparr>company = Text (safe_string_operation (company r)),
      internship_title = Text (safe_string_operation (internship_title r)),
      field = Text (safe_string_operation (field r)),
      location = Text (safe_string_operation (location r)),
      skills = SkillText (join '', '' (safe_list_operation (skills r))),
      match_score = match_score r,
      apply_link = ''https://company.com/apply/''
                     @ replace_char CHR '' '' CHR ''-''
                         (safe_string_operation (internship_title r))\<rparr>"

fun unique_results ::
  "(cell \<times> cell \<times> cell) set \<Rightarrow> scored list \<Rightarrow> recommendation list" where
  "unique_results seen_keys [] = []"
| "unique_results seen_keys (r # results) =
     (let r' = format_result r
      in if key r' \<notin> seen_keys then r' # unique_results (insert (key r') seen_keys) results
         else unique_results seen_keys results)"

record response =
  success :: bool
  recommendations :: "recommendation list"
  total_found :: nat

text \<open>
  The endpoint, in two parts: the list \<open>results\<close> as it stands when the loop over the
  locations is done, and the response made from it. Scoring cannot raise, so the handlers
  around the branch without locations and around the whole body have no branch here.
\<close>

definition collect_results ::
  "(string \<Rightarrow> string \<Rightarrow> nat) \<Rightarrow> (string \<Rightarrow> (string \<Rightarrow> bool) option) \<Rightarrow>
   (scored list \<Rightarrow> scored list) \<Rightarrow> listing list \<Rightarrow> request \<Rightarrow> scored list" where
  "collect_results ratio str_contains sort_values matches_df req =
     (let student_skills0 = safe_list_operation (SkillList (req_skills req));
          student_field0 = safe_string_operation (Text (req_field req));
          student_locations0 = safe_list_operation (SkillList (req_locations req));
          n = max 1 (min 20 (top_n req));
          student_skills = [safe_string_operation (Text s). s \<leftarrow> student_skills0, s \<noteq> []];
          student_field = safe_string_operation (Text student_field0);
          student_locations = [safe_string_operation (Text l). l \<leftarrow> student_locations0, l \<noteq> []];
          df = matches_df
      in if student_locations = [] then
           (let top_matches =
                  nlargest sort_values (n * 2)
                    (apply_calculate_score_safely ratio student_skills student_field df)
            in head n top_matches)
         else
           concat (map (select_location_safely ratio str_contains sort_values student_skills
                          student_field n df) student_locations))"

definition get_recommendations_bulletproof ::
  "(string \<Rightarrow> string \<Rightarrow> nat) \<Rightarrow> (string \<Rightarrow> (string \<Rightarrow> bool) option) \<Rightarrow>
   (scored list \<Rightarrow> scored list) \<Rightarrow> listing list \<Rightarrow> request \<Rightarrow> response" where
  "get_recommendations_bulletproof ratio str_contains sort_values matches_df req =
     (let n = max 1 (min 20 (top_n req));
          results = collect_results ratio str_contains sort_values matches_df req;
          unique = unique_results {} (take (nat n) results)
      in \<lparr>success = True, recommendations = unique, total_found = length unique\<rparr>)"

section \<open>Loading the catalog\<close>

text \<open>
  What the file system holds at a path: nothing, a file that \<open>pd.read_csv\<close> cannot parse,
  or a table with the five columns. A row of the table has one cell for each column.
\<close>

record csv_row =
  csv_company :: cell
  csv_internship_title :: cell
  csv_field :: cell
  csv_location :: cell
  csv_skills :: cell

datatype csv_file = Missing | Corrupt | Table "csv_row list"

definition path_exists :: "csv_file \<Rightarrow> bool" where
  "path_exists f = (f \<noteq> Missing)"

definition read_csv :: "csv_file \<Rightarrow> error + csv_row list" where
  "read_csv f =
     (case f of
        Missing \<Rightarrow> Inl FileNotFoundError
      | Corrupt \<Rightarrow> Inl ParserError
      | Table rows \<Rightarrow> Inr rows)"

text \<open>backends.py reads its data file when the module is imported.\<close>

definition DATA_FILE :: string where
  "DATA_FILE = ''backend/../data/student_internship_matches_stratified (1).csv''"

definition load_matches_df :: "(string \<Rightarrow> csv_file) \<Rightarrow> error + csv_row list" where
  "load_matches_df fs = read_csv (fs DATA_FILE)"

text \<open>\<open>str(n)\<close> for a natural number.\<close>

fun str_nat :: "nat \<Rightarrow> string" where
  "str_nat n =
     (if n < 10 then [char_of (48 + n)] else str_nat (n div 10) @ [char_of (48 + n mod 10)])"

definition create_mock_data :: "csv_row list" where
  "create_mock_data =
     (let companies = [''TechCorp'', ''DataSoft'', ''WebDev Inc'', ''AI Solutions'', ''CloudTech''];
          fields = [''Software Development'', ''Data Science'', ''Web Development'',
                    ''Machine Learning''];
          locations = [''New York'', ''San Francisco'', ''Boston'', ''Seattle'', ''Remote''];
          skills_sets = [[''python'', ''django'', ''postgresql''],
                         [''javascript'', ''react'', ''node.js''],
                         [''java'', ''spring'', ''mysql''],
                         [''python'', ''pandas'', ''machine learning''],
                         [''html'', ''css'', ''bootstrap'']]
      in map (\<lambda>i. \<lparr>csv_company = Text (companies ! (i mod length companies)),
                     csv_internship_title = Text (''Software Intern '' @ str_nat (i + 1)),
                     csv_field = Text (fields ! (i mod length fields)),
                     csv_location = Text (locations ! (i mod length locations)),
                     csv_skills = Text (join '','' (skills_sets ! (i mod length skills_sets)))\<rparr>)
           [0..<50])"

definition load_data_safely :: "(string \<Rightarrow> csv_file) \<Rightarrow> csv_row list" where
  "load_data_safely fs =
     (let data_path = ''../data/student_internship_matches_stratified (1).csv'';
          data_path = (if \<not> path_exists (fs data_path)
                       then ''data/student_internship_matches_stratified (1).csv''
                       else data_path)
      in if path_exists (fs data_path) then
           (case read_csv (fs data_path) of
              Inr df \<Rightarrow> df
            | Inl e \<Rightarrow> create_mock_data)
         else create_mock_data)"

text \<open>
  \<open>safe_fillna(series, default)\<close> on one cell, and the step of \<open>safe_skills_processing\<close>
  on one cell.
\<close>

definition safe_fillna :: "cell \<Rightarrow> string \<Rightarrow> string" where
  "safe_fillna v default_value = (case v of NaN \<Rightarrow> default_value | Text s \<Rightarrow> s)"

definition safe_skills_processing :: "cell \<Rightarrow> string list" where
  "safe_skills_processing skill_str =
     (case skill_str of
        NaN \<Rightarrow> []
      | Text s \<Rightarrow>
          (if s \<in> {''nan'', ''None''} then []
           else [lower (strip t). t \<leftarrow> split_on CHR '','' s, strip t \<noteq> []]))"

text \<open>
  The catalog of backends_bulletproof.py: the loaded table with its columns cleaned.
  On a table with the five columns the cleaning raises nothing; the handler around it
  (which would put a one-row catalog in its place) has no branch here.
\<close>

definition matches_df_bulletproof :: "(string \<Rightarrow> csv_file) \<Rightarrow> listing list" where
  "matches_df_bulletproof fs =
     map (\<lambda>r. \<lparr>company = Text (safe_fillna (csv_company r) ''Company''),
                internship_title = Text (safe_fillna (csv_internship_title r) ''Internship''),
                field = Text (safe_fillna (csv_field r) ''General''),
                location = Text (safe_fillna (csv_location r) ''Remote''),
                skills = SkillList (safe_skills_processing (csv_skills r))\<rparr>)
       (load_data_safely fs)"

section \<open>A small catalog\<close>

text \<open>Three listings in Boston and one remote listing whose field cell is empty.\<close>

definition boston_python :: listing where
  "boston_python =
     \<lparr>company = Text ''Acme'', internship_title = Text ''Data Intern'',
      field = Text ''Data Science'', location = Text ''Boston'',
      skills = SkillList [''python'']\<rparr>"

definition boston_python_sql :: listing where
  "boston_python_sql =
     \<lparr>company = Text ''Beta'', internship_title = Text ''ML Intern'',
      field = Text ''Machine Learning'', location = Text ''Boston'',
      skills = SkillList [''python'', ''sql'']\<rparr>"

definition boston_java :: listing where
  "boston_java =
     \<lparr>company = Text ''Gamma'', internship_title = Text ''Java Intern'',
      field = Text ''Software Development'', location = Text ''Boston'',
      skills = SkillList [''java'']\<rparr>"

definition remote_no_field :: listing where
  "remote_no_field =
     \<lparr>company = Text ''Delta'', internship_title = Text ''Ops Intern'', field = NaN,
      location = Text ''Remote'', skills = SkillList [''python'']\<rparr>"

definition small_catalog :: "listing list" where
  "small_catalog = [boston_python, boston_python_sql, boston_java, remote_no_field]"

text \<open>Two listings in Boston whose company cell is empty.\<close>

definition boston_no_company :: listing where
  "boston_no_company =
     \<lparr>company = NaN, internship_title = Text ''Data Intern'', field = Text ''Data Science'',
      location = Text ''Boston'', skills = SkillList [''python'']\<rparr>"

definition boston_no_company_web :: listing where
  "boston_no_company_web =
     \<lparr>company = NaN, internship_title = Text ''Web Intern'', field = Text ''Web Development'',
      location = Text ''Boston'', skills = SkillList [''html'']\<rparr>"

text \<open>
  Two samplers that draw without replacement: one takes the first rows, the other the
  last ones. Both count in the generator state.
\<close>

definition first_rows_sample :: "nat \<Rightarrow> nat \<Rightarrow> scored list \<Rightarrow> scored list \<times> nat" where
  "first_rows_sample g k df = (take k df, Suc g)"

definition last_rows_sample :: "nat \<Rightarrow> nat \<Rightarrow> scored list \<Rightarrow> scored list \<times> nat" where
  "last_rows_sample g k df = (take k (rev df), g + 2)"

text \<open>A request for Python internships in the given locations.\<close>

definition python_request :: "string list \<Rightarrow> int \<Rightarrow> request" where
  "python_request locs n =
     \<lparr>name = ''Student'', course = None, req_skills = [''Python''], req_locations = locs,
      req_field = [], top_n = n\<rparr>"

text \<open>The same request with a target field.\<close>

definition data_science_request :: "string list \<Rightarrow> int \<Rightarrow> request" where
  "data_science_request locs n =
     \<lparr>name = ''Student'', course = None, req_skills = [''Python''], req_locations = locs,
      req_field = ''Data Science'', top_n = n\<rparr>"

section \<open>Facts about floats and the score components\<close>

lemma round_half_even_of_int [simp]: "round_half_even (of_int k) = k"
  by (simp add: round_half_even_def)

lemma round_half_even_mono:
  assumes "x \<le> y"
  shows "round_half_even x \<le> round_half_even y"
proof (cases "\<lfloor>x\<rfloor> = \<lfloor>y\<rfloor>")
  case True
  with assms show ?thesis
    by (auto simp: round_half_even_def Let_def)
next
  case False
  with assms have "\<lfloor>x\<rfloor> < \<lfloor>y\<rfloor>"
    by (simp add: floor_mono order.strict_iff_order)
  then have "\<lfloor>x\<rfloor> + 1 \<le> \<lfloor>y\<rfloor>"
    by simp
  moreover have "round_half_even x \<le> \<lfloor>x\<rfloor> + 1"
    by (simp add: round_half_even_def Let_def)
  moreover have "\<lfloor>y\<rfloor> \<le> round_half_even y"
    by (simp add: round_half_even_def Let_def)
  ultimately show ?thesis
    by linarith
qed

lemma of_int_less_pow2_bitlen:
  assumes "0 < p"
  shows "(2::rat) powi (bitlen p - 1) \<le> of_int p \<and> (of_int p :: rat) < 2 powi (bitlen p)"
proof -
  from bitlen_bounds [OF assms] have lo: "2 ^ nat (bitlen p - 1) \<le> p" and hi: "p < 2 ^ nat (bitlen p)"
    by simp_all
  have pos: "1 \<le> bitlen p"
  proof (rule ccontr)
    assume "\<not> 1 \<le> bitlen p"
    with bitlen_nonneg [of p] have "bitlen p = 0" by simp
    with hi assms show False by simp
  qed
  have "(2::rat) powi (bitlen p - 1) = 2 ^ nat (bitlen p - 1)"
    using pos by (simp add: power_int_def)
  moreover have "(2::rat) powi (bitlen p) = 2 ^ nat (bitlen p)"
    using pos by (simp add: power_int_def)
  moreover have "(2::rat) ^ nat (bitlen p - 1) \<le> of_int p"
    using lo by (metis of_int_le_iff of_int_numeral of_int_power)
  moreover have "(of_int p :: rat) < 2 ^ nat (bitlen p)"
    using hi by (metis of_int_less_iff of_int_numeral of_int_power)
  ultimately show ?thesis
    by simp
qed

lemma binade_bounds:
  assumes "0 < x"
  shows "2 powi (binade x) \<le> x \<and> x < 2 powi (binade x + 1)"
proof -
  obtain p q where pq: "quotient_of x = (p, q)"
    by (cases "quotient_of x")
  then have q: "0 < q" and x: "x = of_int p / of_int q"
    by (simp_all add: quotient_of_denom_pos quotient_of_div)
  with assms have p: "0 < p"
    by (simp add: zero_less_divide_iff)
  let ?d = "bitlen p - bitlen q"
  note bp = of_int_less_pow2_bitlen [OF p] and bq = of_int_less_pow2_bitlen [OF q]
  have qpos: "(0::rat) < of_int q"
    using q by simp
  have pow_pos: "(0::rat) < 2 powi k" for k :: int
    by (rule zero_less_power_int) simp
  have upper: "x < 2 powi (?d + 1)"
  proof -
    have "x < 2 powi (bitlen p) / of_int q"
      unfolding x using bp qpos by (simp add: divide_strict_right_mono)
    also have "\<dots> \<le> 2 powi (bitlen p) / 2 powi (bitlen q - 1)"
    proof (rule divide_left_mono)
      show "2 powi (bitlen q - 1) \<le> (of_int q :: rat)"
        using bq by simp
      show "(0::rat) \<le> 2 powi bitlen p"
        using pow_pos [of "bitlen p"] by simp
      show "(0::rat) < of_int q * 2 powi (bitlen q - 1)"
        using qpos pow_pos by (rule mult_pos_pos)
    qed
    also have "\<dots> = 2 powi (bitlen p - (bitlen q - 1))"
      by (simp add: power_int_diff)
    finally show ?thesis
      by (simp add: algebra_simps)
  qed
  have lower: "2 powi (?d - 1) \<le> x"
  proof -
    have "(2::rat) powi (bitlen p - 1) / 2 powi (bitlen q) \<le> of_int p / 2 powi (bitlen q)"
      using bp pow_pos [of "bitlen q"] by (intro divide_right_mono) (simp_all add: less_imp_le)
    also have "\<dots> \<le> x"
      unfolding x
    proof (rule divide_left_mono)
      show "(of_int q :: rat) \<le> 2 powi bitlen q"
        using bq by simp
      show "(0::rat) \<le> of_int p"
        using p by simp
      show "(0::rat) < 2 powi bitlen q * of_int q"
        using pow_pos qpos by (rule mult_pos_pos)
    qed
    finally have "2 powi (bitlen p - 1) / 2 powi (bitlen q) \<le> x" .
    moreover have "(2::rat) powi (bitlen p - 1) / 2 powi (bitlen q) = 2 powi (bitlen p - 1 - bitlen q)"
      by (simp add: power_int_diff)
    ultimately show ?thesis
      by (simp add: algebra_simps)
  qed
  show ?thesis
  proof (cases "2 powi ?d \<le> x")
    case True
    with pq upper show ?thesis
      by (simp add: binade_def Let_def)
  next
    case False
    with pq lower show ?thesis
      by (simp add: binade_def Let_def)
  qed
qed

lemma binade_mono:
  assumes "0 < x" and "x \<le> y"
  shows "binade x \<le> binade y"
proof (rule ccontr)
  assume "\<not> binade x \<le> binade y"
  then have "binade y + 1 \<le> binade x"
    by simp
  then have "(2::rat) powi (binade y + 1) \<le> 2 powi (binade x)"
    by (intro power_int_increasing) simp_all
  moreover from assms have "0 < y"
    by simp
  ultimately show False
    using binade_bounds [OF assms(1)] binade_bounds [OF \<open>0 < y\<close>] assms(2) by linarith
qed

lemma float_round_pos:
  assumes "0 < x"
  shows "float_round x =
           of_int (round_half_even (x / 2 powi (max (binade x) (- 1022) - 52)))
             * 2 powi (max (binade x) (- 1022) - 52)"
  using assms by (simp add: float_round_def Let_def)

lemma float_round_nonneg:
  assumes "0 \<le> x"
  shows "0 \<le> float_round x"
proof (cases "x = 0")
  case True
  then show ?thesis by (simp add: float_round_def)
next
  case False
  with assms have x: "0 < x" by simp
  let ?q = "(2::rat) powi (max (binade x) (- 1022) - 52)"
  have q: "0 < ?q"
    by (rule zero_less_power_int) simp
  then have "0 \<le> x / ?q"
    using x by simp
  from round_half_even_mono [OF this] have "0 \<le> round_half_even (x / ?q)"
    using round_half_even_of_int [of 0] by simp
  with q show ?thesis
    unfolding float_round_pos [OF x] by simp
qed

lemma scale_le: "a \<le> b \<Longrightarrow> 0 < q \<Longrightarrow> a * q \<le> b * (q::rat)"
  by simp

lemma float_round_upper:
  assumes "0 < x"
  shows "float_round x \<le> 2 powi (max (binade x) (- 1022) + 1)"
proof -
  define e where "e = max (binade x) (- 1022)"
  define q where "q = (2::rat) powi (e - 52)"
  define r where "r = round_half_even (x / q)"
  have q: "0 < q"
    unfolding q_def by (rule zero_less_power_int) simp
  have fr: "float_round x = of_int r * q"
    unfolding r_def q_def e_def by (rule float_round_pos [OF assms])
  have split: "(2::rat) powi (e + 1) = of_int (2 ^ 53) * q"
  proof -
    have "(2::rat) powi (e + 1) = 2 powi (53 + (e - 52))"
      by (simp add: add.commute)
    also have "\<dots> = 2 powi 53 * 2 powi (e - 52)"
      by (rule power_int_add) simp
    also have "(2::rat) powi 53 = of_int (2 ^ 53)"
      by (simp add: power_int_def)
    finally show ?thesis
      unfolding q_def .
  qed
  have "x < 2 powi (binade x + 1)"
    using binade_bounds [OF assms] by simp
  also have "\<dots> \<le> 2 powi (e + 1)"
    unfolding e_def by (intro power_int_increasing) simp_all
  finally have "x \<le> of_int (2 ^ 53) * q"
    unfolding split by simp
  then have "x / q \<le> of_int (2 ^ 53)"
    using q by (simp add: pos_divide_le_eq)
  from round_half_even_mono [OF this] have "r \<le> 2 ^ 53"
    unfolding r_def by (simp only: round_half_even_of_int)
  then have "(of_int r :: rat) \<le> of_int (2 ^ 53)"
    by (simp only: of_int_le_iff)
  then have "of_int r * q \<le> of_int (2 ^ 53) * q"
    using q by (rule scale_le)
  then have "float_round x \<le> 2 powi (e + 1)"
    unfolding fr split .
  then show ?thesis
    unfolding e_def .
qed

lemma float_round_lower:
  assumes "0 < x" and "- 1022 \<le> binade x"
  shows "2 powi (binade x) \<le> float_round x"
proof -
  define e where "e = max (binade x) (- 1022)"
  define q where "q = (2::rat) powi (e - 52)"
  define r where "r = round_half_even (x / q)"
  have e: "e = binade x"
    using assms(2) by (simp add: e_def)
  have q: "0 < q"
    unfolding q_def by (rule zero_less_power_int) simp
  have fr: "float_round x = of_int r * q"
    unfolding r_def q_def e_def by (rule float_round_pos [OF assms(1)])
  have split: "(2::rat) powi e = of_int (2 ^ 52) * q"
  proof -
    have "(2::rat) powi e = 2 powi (52 + (e - 52))"
      by simp
    also have "\<dots> = 2 powi 52 * 2 powi (e - 52)"
      by (rule power_int_add) simp
    also have "(2::rat) powi 52 = of_int (2 ^ 52)"
      by (simp add: power_int_def)
    finally show ?thesis
      unfolding q_def .
  qed
  have "2 powi e \<le> x"
    using binade_bounds [OF assms(1)] e by simp
  then have "of_int (2 ^ 52) * q \<le> x"
    unfolding split .
  then have "of_int (2 ^ 52) \<le> x / q"
    using q by (simp add: pos_le_divide_eq)
  from round_half_even_mono [OF this] have "2 ^ 52 \<le> r"
    unfolding r_def by (simp only: round_half_even_of_int)
  then have "(of_int (2 ^ 52) :: rat) \<le> of_int r"
    by (simp only: of_int_le_iff)
  then have "of_int (2 ^ 52) * q \<le> of_int r * q"
    using q by (rule scale_le)
  then have "2 powi e \<le> float_round x"
    unfolding fr split .
  then show ?thesis
    unfolding e .
qed

lemma float_round_mono:
  assumes "0 \<le> x" and "x \<le> y"
  shows "float_round x \<le> float_round y"
proof (cases "x = 0")
  case True
  with assms float_round_nonneg [of y] show ?thesis
    by (simp add: float_round_def)
next
  case False
  with assms have x: "0 < x" and y: "0 < y"
    by simp_all
  let ?ex = "max (binade x) (- 1022)"
  let ?ey = "max (binade y) (- 1022)"
  have le: "?ex \<le> ?ey"
    using binade_mono [OF x assms(2)] by simp
  show ?thesis
  proof (cases "?ex = ?ey")
    case True
    let ?q = "(2::rat) powi (?ey - 52)"
    have q: "0 < ?q"
      by (rule zero_less_power_int) simp
    then have "x / ?q \<le> y / ?q"
      using assms(2) by (intro divide_right_mono) (simp_all add: less_imp_le)
    from round_half_even_mono [OF this]
    have "of_int (round_half_even (x / ?q)) * ?q \<le> of_int (round_half_even (y / ?q)) * ?q"
      using q by simp
    then show ?thesis
      unfolding float_round_pos [OF x] float_round_pos [OF y] True .
  next
    case False
    with le have lt: "?ex + 1 \<le> ?ey" and normal: "- 1022 \<le> binade y" and ey: "?ey = binade y"
      by simp_all
    have "float_round x \<le> 2 powi (?ex + 1)"
      by (rule float_round_upper [OF x])
    also have "\<dots> \<le> 2 powi ?ey"
      using lt by (intro power_int_increasing) simp_all
    also have "\<dots> \<le> float_round y"
      unfolding ey by (rule float_round_lower [OF y normal])
    finally show ?thesis .
  qed
qed

lemma float_round_0 [simp]: "float_round 0 = 0"
  by (simp add: float_round_def)

lemma float_round_1 [simp]: "float_round 1 = 1"
  by code_simp

lemma float_round_six_tenths:
  "float_round (6 / 10) = 5404319552844595 / 9007199254740992"
  by code_simp

lemma float_round_four_tenths:
  "float_round (4 / 10) = 3602879701896397 / 9007199254740992"
  by code_simp

lemma float_round_six_tenths_idem: "float_round (float_round (6 / 10)) = float_round (6 / 10)"
  by code_simp

lemma weights_sum: "float_round (6 / 10) + float_round (4 / 10) = 1"
  by code_simp

lemma fdiv_bounds:
  assumes "m \<le> n" "0 < n"
  shows "0 \<le> fdiv (of_nat m) (of_nat n) \<and> fdiv (of_nat m) (of_nat n) \<le> 1"
proof -
  have a: "(0::rat) \<le> of_nat m / of_nat n"
    by simp
  have b: "(of_nat m :: rat) / of_nat n \<le> 1"
    using assms by simp
  from float_round_nonneg [OF a] float_round_mono [OF a b] show ?thesis
    by (simp add: fdiv_def)
qed

lemma skill_part_bounds:
  assumes "0 \<le> r" "r \<le> 1"
  shows "0 \<le> fadd 0 (fmul r (float_round (6 / 10))) \<and>
         fadd 0 (fmul r (float_round (6 / 10))) \<le> float_round (6 / 10)"
proof -
  have w: "(0::rat) \<le> float_round (6 / 10)"
    by (rule float_round_nonneg) simp
  have a: "0 \<le> r * float_round (6 / 10)"
    using assms w by simp
  have b: "r * float_round (6 / 10) \<le> float_round (6 / 10)"
    using assms w by (simp add: mult_left_le_one_le)
  have c: "0 \<le> fmul r (float_round (6 / 10))"
    unfolding fmul_def by (rule float_round_nonneg [OF a])
  have d: "fmul r (float_round (6 / 10)) \<le> float_round (6 / 10)"
    using float_round_mono [OF a b] by (simp only: fmul_def float_round_six_tenths_idem)
  have e: "0 \<le> fadd 0 (fmul r (float_round (6 / 10)))"
    using float_round_nonneg [OF c] by (simp add: fadd_def)
  have f: "fadd 0 (fmul r (float_round (6 / 10))) \<le> float_round (6 / 10)"
    using float_round_mono [OF c d]
    by (simp only: fadd_def float_round_six_tenths_idem add_0_left)
  from e f show ?thesis ..
qed

lemma card_inter_le_length: "card (set xs \<inter> B) \<le> length xs"
  by (meson List.finite_set card_length card_mono inf_le1 le_trans)

lemma skills_match_bounds:
  assumes "skills_match student_skills row 0 = Inr a"
  shows "0 \<le> a \<and> a \<le> float_round (6 / 10)"
proof (cases "student_skills = []")
  case True
  with assms have "a = 0"
    by (simp add: skills_match_def)
  moreover have "(0::rat) \<le> float_round (6 / 10)"
    by (rule float_round_nonneg) simp
  ultimately show ?thesis
    by simp
next
  case False
  with assms obtain row_skills where
    a: "a = fadd 0 (fmul (fdiv (of_nat (card (set student_skills \<inter> row_skills)))
                            (of_nat (max (length student_skills) 1)))
                      (float_round (6 / 10)))"
    by (auto simp: skills_match_def Let_def split: sum.splits)
  have "card (set student_skills \<inter> row_skills) \<le> max (length student_skills) 1"
    using card_inter_le_length [of student_skills row_skills] by simp
  from fdiv_bounds [OF this] have
    "0 \<le> fdiv (of_nat (card (set student_skills \<inter> row_skills)))
            (of_nat (max (length student_skills) 1)) \<and>
     fdiv (of_nat (card (set student_skills \<inter> row_skills)))
            (of_nat (max (length student_skills) 1)) \<le> 1"
    by simp
  then show ?thesis
    unfolding a using skill_part_bounds by blast
qed

lemma skills_match_safely_bounds:
  "0 \<le> skills_match_safely student_skills row 0 \<and>
   skills_match_safely student_skills row 0 \<le> float_round (6 / 10)"
proof (cases "student_skills = []")
  case True
  moreover have "(0::rat) \<le> float_round (6 / 10)"
    by (rule float_round_nonneg) simp
  ultimately show ?thesis
    by (simp add: skills_match_safely_def)
next
  case False
  define cs where "cs = map (\<lambda>s. safe_string_operation (Text s)) student_skills"
  have ne: "cs \<noteq> []"
    using False by (simp add: cs_def)
  obtain B where
    a: "skills_match_safely student_skills row 0 =
          fadd 0 (fmul (fdiv (of_nat (card (set cs \<inter> B))) (of_nat (length cs)))
                       (float_round (6 / 10)))"
    using False ne by (simp add: skills_match_safely_def Let_def cs_def)
  have "card (set cs \<inter> B) \<le> length cs"
    by (rule card_inter_le_length)
  moreover have "0 < length cs"
    using ne by simp
  ultimately have
    "0 \<le> fdiv (of_nat (card (set cs \<inter> B))) (of_nat (length cs)) \<and>
     fdiv (of_nat (card (set cs \<inter> B))) (of_nat (length cs)) \<le> 1"
    by (rule fdiv_bounds)
  then show ?thesis
    unfolding a using skill_part_bounds by blast
qed

lemma add_field_bounds:
  assumes "0 \<le> a" "a \<le> float_round (6 / 10)"
  shows "0 \<le> fadd a (float_round (4 / 10)) \<and> fadd a (float_round (4 / 10)) \<le> 1"
proof -
  have w: "(0::rat) \<le> float_round (4 / 10)"
    by (rule float_round_nonneg) simp
  have p: "0 \<le> a + float_round (4 / 10)"
    using assms w by simp
  have q: "a + float_round (4 / 10) \<le> 1"
    using assms weights_sum by linarith
  from float_round_nonneg [OF p] float_round_mono [OF p q] show ?thesis
    by (simp add: fadd_def)
qed

lemma six_tenths_le_1: "float_round (6 / 10) \<le> 1"
  by code_simp

lemma field_match_bounds:
  assumes "0 \<le> a" "a \<le> float_round (6 / 10)" "field_match ratio student_field row a = Inr b"
  shows "0 \<le> b \<and> b \<le> 1 \<and> (b = a \<or> b = fadd a (float_round (4 / 10)))"
proof -
  from assms(3) have "b = a \<or> b = fadd a (float_round (4 / 10))"
    by (auto simp: field_match_def Let_def split: if_splits cell.splits)
  with add_field_bounds [OF assms(1,2)] assms(1,2) six_tenths_le_1 show ?thesis
    by auto
qed

lemma field_match_safely_bounds:
  assumes "0 \<le> a" "a \<le> float_round (6 / 10)"
  shows "0 \<le> field_match_safely ratio student_field row a \<and>
         field_match_safely ratio student_field row a \<le> 1 \<and>
         (field_match_safely ratio student_field row a = a \<or>
          field_match_safely ratio student_field row a = fadd a (float_round (4 / 10)))"
proof -
  have "field_match_safely ratio student_field row a = a \<or>
        field_match_safely ratio student_field row a = fadd a (float_round (4 / 10))"
    by (simp add: field_match_safely_def Let_def)
  with add_field_bounds [OF assms] assms six_tenths_le_1 show ?thesis
    by auto
qed

lemma round3_bounds:
  assumes "0 \<le> x" "x \<le> 1"
  shows "0 \<le> round3 x \<and> round3 x \<le> 1 \<and>
         (\<exists>k. 0 \<le> k \<and> k \<le> 1000 \<and> round3 x = float_round (of_int k / 1000))"
proof -
  define k where "k = round_half_even (x * 1000)"
  have "round_half_even (of_int 0) \<le> round_half_even (x * 1000)"
    by (rule round_half_even_mono) (use assms in simp)
  then have k0: "0 \<le> k"
    by (simp add: k_def del: of_int_0)
  have "round_half_even (x * 1000) \<le> round_half_even (of_int 1000)"
    by (rule round_half_even_mono) (use assms in simp)
  then have k1: "k \<le> 1000"
    by (simp add: k_def del: of_int_numeral)
  have a: "(0::rat) \<le> of_int k / 1000"
    using k0 by simp
  have b: "(of_int k :: rat) / 1000 \<le> 1"
    using k1 by simp
  have r: "round3 x = float_round (of_int k / 1000)"
    by (simp add: round3_def k_def)
  from float_round_nonneg [OF a] float_round_mono [OF a b] k0 k1 r show ?thesis
    by auto
qed

lemma clamp_unit: "0 \<le> (x::rat) \<Longrightarrow> x \<le> 1 \<Longrightarrow> max 0 (min 1 x) = x"
  by simp

lemma calculate_score_safely_bounds:
  "0 \<le> calculate_score_safely ratio row student_skills student_field \<and>
   calculate_score_safely ratio row student_skills student_field \<le> 1"
proof -
  let ?a = "skills_match_safely student_skills row 0"
  let ?b = "field_match_safely ratio student_field row ?a"
  have a: "0 \<le> ?a \<and> ?a \<le> float_round (6 / 10)"
    by (rule skills_match_safely_bounds)
  then have b: "0 \<le> ?b \<and> ?b \<le> 1"
    using field_match_safely_bounds [of ?a ratio student_field row] by blast
  then have "max 0 (min 1 ?b) = ?b"
    by simp
  with round3_bounds [of ?b] b show ?thesis
    by (simp add: calculate_score_safely_def Let_def)
qed

section \<open>The score is a number of thousandths between 0 and 1\<close>

text \<open>
  C1. For every listing and every query, the match score that the scorer returns lies
  between 0 and 1 and is the float of a number of thousandths: it is the sum of the skill
  component (at most 0.6) and the field component (0.4 or nothing), clamped to the
  interval from 0 to 1 and rounded to three decimal places. In backends.py the sum
  already lies in the interval, so the clamp that only \<open>calculate_score_safely\<close> writes
  out changes nothing there. (\<open>calculate_score\<close> can raise; the statement is about the
  score it returns when it returns one, and \<open>calculate_score_safely\<close> always returns
  one.)
\<close>

theorem match_score_in_unit_interval:
  "(calculate_score ratio student_skills student_field row = Inr s \<longrightarrow>
      (\<exists>a b. skills_match student_skills row 0 = Inr a \<and>
             field_match ratio student_field row a = Inr b \<and>
             0 \<le> a \<and> a \<le> float_round (6 / 10) \<and>
             (b = a \<or> b = fadd a (float_round (4 / 10))) \<and>
             0 \<le> b \<and> b \<le> 1 \<and> s = round3 b \<and> s = round3 (max 0 (min 1 b))) \<and>
      0 \<le> s \<and> s \<le> 1 \<and>
      (\<exists>k. 0 \<le> k \<and> k \<le> 1000 \<and> s = float_round (of_int k / 1000))) \<and>
   (\<exists>a b. a = skills_match_safely student_skills row 0 \<and>
          b = field_match_safely ratio student_field row a \<and>
          0 \<le> a \<and> a \<le> float_round (6 / 10) \<and>
          (b = a \<or> b = fadd a (float_round (4 / 10))) \<and>
          0 \<le> b \<and> b \<le> 1 \<and>
          calculate_score_safely ratio row student_skills student_field
            = round3 (max 0 (min 1 b)) \<and>
          calculate_score_safely ratio row student_skills student_field = round3 b) \<and>
   0 \<le> calculate_score_safely ratio row student_skills student_field \<and>
   calculate_score_safely ratio row student_skills student_field \<le> 1 \<and>
   (\<exists>k. 0 \<le> k \<and> k \<le> 1000 \<and>
        calculate_score_safely ratio row student_skills student_field
          = float_round (of_int k / 1000))"
proof -
  have one: "(\<exists>a b. skills_match student_skills row 0 = Inr a \<and>
             field_match ratio student_field row a = Inr b \<and>
             0 \<le> a \<and> a \<le> float_round (6 / 10) \<and>
             (b = a \<or> b = fadd a (float_round (4 / 10))) \<and>
             0 \<le> b \<and> b \<le> 1 \<and> s = round3 b \<and> s = round3 (max 0 (min 1 b))) \<and>
      0 \<le> s \<and> s \<le> 1 \<and>
      (\<exists>k. 0 \<le> k \<and> k \<le> 1000 \<and> s = float_round (of_int k / 1000))"
    if s: "calculate_score ratio student_skills student_field row = Inr s"
  proof -
    from s obtain a b where
      a: "skills_match student_skills row 0 = Inr a" and
      b: "field_match ratio student_field row a = Inr b" and
      r: "s = round3 b"
      by (auto simp: calculate_score_def split: sum.splits)
    from skills_match_bounds [OF a] have ab: "0 \<le> a" "a \<le> float_round (6 / 10)"
      by simp_all
    from field_match_bounds [OF ab b] have
      bb: "0 \<le> b" "b \<le> 1" "b = a \<or> b = fadd a (float_round (4 / 10))"
      by simp_all
    have c: "max 0 (min 1 b) = b"
      using bb by simp
    from round3_bounds [OF bb(1,2)] a b ab bb c r show ?thesis
      by auto
  qed
  let ?a = "skills_match_safely student_skills row 0"
  let ?b = "field_match_safely ratio student_field row ?a"
  let ?s = "calculate_score_safely ratio row student_skills student_field"
  have a: "0 \<le> ?a" "?a \<le> float_round (6 / 10)"
    using skills_match_safely_bounds [of student_skills row] by simp_all
  have b: "0 \<le> ?b" "?b \<le> 1" "?b = ?a \<or> ?b = fadd ?a (float_round (4 / 10))"
    using field_match_safely_bounds [OF a, of ratio student_field row] by simp_all
  have c: "max 0 (min 1 ?b) = ?b"
    using b by simp
  have d: "?s = round3 (max 0 (min 1 ?b))"
    by (simp add: calculate_score_safely_def Let_def)
  have e: "?s = round3 ?b"
    using c d by simp
  have two: "\<exists>a b. a = ?a \<and> b = field_match_safely ratio student_field row a \<and>
          0 \<le> a \<and> a \<le> float_round (6 / 10) \<and>
          (b = a \<or> b = fadd a (float_round (4 / 10))) \<and>
          0 \<le> b \<and> b \<le> 1 \<and> ?s = round3 (max 0 (min 1 b)) \<and> ?s = round3 b"
    using a b d e by blast
  have three: "0 \<le> ?s \<and> ?s \<le> 1 \<and> (\<exists>k. 0 \<le> k \<and> k \<le> 1000 \<and> ?s = float_round (of_int k / 1000))"
    using round3_bounds [OF b(1,2)] e by simp
  from one two three show ?thesis
    by blast
qed

theorem match_score_in_unit_interval_witness:
  "calculate_score fallback_ratio [''python'', ''sql''] ''data science'' boston_python
     = Inr (float_round (7 / 10)) \<and>
   0 \<le> float_round (7 / 10) \<and> float_round (7 / 10) \<le> 1 \<and>
   calculate_score_safely fallback_ratio boston_python [''python'', ''sql''] ''data science'' \<le> 1"
proof -
  have ret: "calculate_score fallback_ratio [''python'', ''sql''] ''data science'' boston_python
               = Inr (float_round (7 / 10))"
    by code_simp
  from match_score_in_unit_interval
         [of fallback_ratio "[''python'', ''sql'']" "''data science''" boston_python
             "float_round (7 / 10)"] ret
  show ?thesis
    by blast
qed

section \<open>A catalog that cannot be read\<close>

lemma length_create_mock_data: "length create_mock_data = 50"
  by (simp add: create_mock_data_def)

text \<open>
  C9, as amended. \<open>load_data_safely\<close> of backends_bulletproof.py always returns a table:
  the fifty mock listings when the data file is at neither of its two paths or when the
  file it finds cannot be parsed, the rows of the file otherwise; the catalog of the
  service has as many rows. backends.py reads its data file when the module is imported,
  with no fallback: the import succeeds exactly when the file is a table, and raises when
  the file is missing or cannot be parsed.
\<close>

theorem catalog_fallback_in_bulletproof_only:
  "(fs ''../data/student_internship_matches_stratified (1).csv'' = Missing \<and>
    fs ''data/student_internship_matches_stratified (1).csv'' = Missing \<longrightarrow>
      load_data_safely fs = create_mock_data) \<and>
   (fs ''../data/student_internship_matches_stratified (1).csv'' = Corrupt \<longrightarrow>
      load_data_safely fs = create_mock_data) \<and>
   (fs ''../data/student_internship_matches_stratified (1).csv'' = Missing \<and>
    fs ''data/student_internship_matches_stratified (1).csv'' = Corrupt \<longrightarrow>
      load_data_safely fs = create_mock_data) \<and>
   (fs ''../data/student_internship_matches_stratified (1).csv'' = Table rows \<longrightarrow>
      load_data_safely fs = rows) \<and>
   (fs ''../data/student_internship_matches_stratified (1).csv'' = Missing \<and>
    fs ''data/student_internship_matches_stratified (1).csv'' = Table rows \<longrightarrow>
      load_data_safely fs = rows) \<and>
   length create_mock_data = 50 \<and>
   length (matches_df_bulletproof fs) = length (load_data_safely fs) \<and>
   (load_matches_df fs = Inr rows \<longleftrightarrow> fs DATA_FILE = Table rows) \<and>
   (fs DATA_FILE = Missing \<longrightarrow> load_matches_df fs = Inl FileNotFoundError) \<and>
   (fs DATA_FILE = Corrupt \<longrightarrow> load_matches_df fs = Inl ParserError)"
proof -
  let ?p1 = "''../data/student_internship_matches_stratified (1).csv''"
  let ?p2 = "''data/student_internship_matches_stratified (1).csv''"
  have a: "load_data_safely fs = create_mock_data" if "fs ?p1 = Missing" "fs ?p2 = Missing"
    using that by (simp add: load_data_safely_def path_exists_def)
  have b: "load_data_safely fs = create_mock_data" if "fs ?p1 = Corrupt"
    using that by (simp add: load_data_safely_def path_exists_def read_csv_def)
  have c: "load_data_safely fs = create_mock_data" if "fs ?p1 = Missing" "fs ?p2 = Corrupt"
    using that by (simp add: load_data_safely_def path_exists_def read_csv_def)
  have d: "load_data_safely fs = rows" if "fs ?p1 = Table rows"
    using that by (simp add: load_data_safely_def path_exists_def read_csv_def)
  have e: "load_data_safely fs = rows" if "fs ?p1 = Missing" "fs ?p2 = Table rows"
    using that by (simp add: load_data_safely_def path_exists_def read_csv_def)
  have f: "length (matches_df_bulletproof fs) = length (load_data_safely fs)"
    by (simp add: matches_df_bulletproof_def)
  have g: "load_matches_df fs = Inr rows \<longleftrightarrow> fs DATA_FILE = Table rows"
    by (simp add: load_matches_df_def read_csv_def split: csv_file.splits)
  have h: "load_matches_df fs = Inl FileNotFoundError" if "fs DATA_FILE = Missing"
    using that by (simp add: load_matches_df_def read_csv_def)
  have i: "load_matches_df fs = Inl ParserError" if "fs DATA_FILE = Corrupt"
    using that by (simp add: load_matches_df_def read_csv_def)
  from a b c d e f g h i length_create_mock_data show ?thesis
    by blast
qed

theorem catalog_fallback_in_bulletproof_only_witness:
  "load_data_safely (\<lambda>p. Missing) = create_mock_data \<and>
   length (matches_df_bulletproof (\<lambda>p. Missing)) = 50 \<and>
   load_matches_df (\<lambda>p. Missing) = Inl FileNotFoundError"
proof -
  note fallback = catalog_fallback_in_bulletproof_only [of "\<lambda>p. Missing"]
  from fallback have "load_data_safely (\<lambda>p. Missing) = create_mock_data"
    by blast
  moreover from fallback have "length (matches_df_bulletproof (\<lambda>p. Missing)) = 50"
    by simp
  moreover from fallback have "load_matches_df (\<lambda>p. Missing) = Inl FileNotFoundError"
    by blast
  ultimately show ?thesis
    by blast
qed

text \<open>
  The claim as it was stated fails for backends.py: with the data file missing or
  corrupt, loading raises and no catalog is made.
\<close>

theorem catalog_loading_counterexample:
  "load_matches_df (\<lambda>p. Missing) = Inl FileNotFoundError \<and>
   load_matches_df (\<lambda>p. Corrupt) = Inl ParserError"
  by (simp add: load_matches_df_def read_csv_def)

end
